theory Spec2Isabelle
  imports Complex_Main "HOL-Library.AList"
begin

section \<open>Data model of \<^verbatim>\<open>plugin/track.py\<close>\<close>

text \<open>
  The module defines one class, \<^verbatim>\<open>Track\<close>: the session of one track. Its methods are
  embedded below as functions on a record of the object's fields. What the object does to
  its collaborators (the metadata service, the stream-source resolver, the logger, the
  fallback timer, the observers of its events) is appended to the field \<open>trace\<close>, in
  program order.

  Python exceptions are values of the type \<open>error\<close>. A method that mutates the object
  returns the exception it raised, if any, together with the object as the exception left it.
\<close>

datatype error = AttributeError | TypeError | KeyError

text \<open>
  \<^verbatim>\<open>plugin.range.Range\<close>: the module reads \<^verbatim>\<open>r_range.start\<close>, \<^verbatim>\<open>r_range.end\<close> and
  \<^verbatim>\<open>r_range.tuple()\<close>, and builds \<^verbatim>\<open>Range(0, None)\<close>. The registry is keyed by the tuple,
  which the scan unpacks as \<^verbatim>\<open>s_start, s_end = s_range\<close>.
\<close>

record range =
  r_start :: int
  r_end :: "int option"

type_synonym key = "int \<times> int option"

definition Range_t :: "int \<Rightarrow> int option \<Rightarrow> range" where
  "Range_t a b = \<lparr>r_start = a, r_end = b\<rparr>"

definition tuple :: "range \<Rightarrow> key" where
  "tuple r = (r_start r, r_end r)"

text \<open>
  \<^verbatim>\<open>plugin.stream.Stream\<close> is a collaborator. The record holds what \<^verbatim>\<open>Track\<close> reads or
  toggles: \<open>buffer_len\<close> is \<^verbatim>\<open>len(stream.buffer)\<close>, \<open>on_open\<close> is the value of
  \<^verbatim>\<open>stream.on_open.wait(5)\<close>, \<open>on_reading\<close> is the reading gate (an event that is set or
  cleared), and \<open>once_buffered\<close> counts the one-shot subscriptions
  \<^verbatim>\<open>stream.once('buffered', self.limit_buffered)\<close> that are registered.
  \<^verbatim>\<open>Stream(self, index, r_range)\<close> receives the index and the range; the other attributes
  of a new stream are the constructor's business and are passed in as \<open>init\<close>.
\<close>

record stream_handle =
  index :: nat
  s_range :: range
  buffer_len :: nat
  total_length :: int
  state :: string
  on_open :: bool
  on_reading :: bool
  once_buffered :: nat

definition Stream :: "nat \<Rightarrow> range \<Rightarrow> stream_handle \<Rightarrow> stream_handle" where
  "Stream i r init = init\<lparr>index := i, s_range := r\<rparr>"

text \<open>
  The metadata object of the catalogue service. \<open>available\<close> is the answer of
  \<^verbatim>\<open>is_available()\<close>; \<open>alternative\<close> is what \<^verbatim>\<open>find_alternative()\<close> would switch the
  object's uri to, if anything; \<open>restrictions\<close> has one entry per restriction (countries
  allowed, countries forbidden, catalogues).
\<close>

record metadata =
  m_uri :: string
  available :: bool
  alternative :: "string option"
  restrictions :: "(string \<times> string \<times> string) list"
  duration :: int

type_synonym track_info = "(string \<times> string) list"

type_synonym response = "(string \<times> track_info) list"

datatype event =
    SpMetadata string
  | TrackUri
  | TrackEvent string int int
  | TrackEnd string int
  | TimerStart
  | TimerCancel
  | Emit string
  | Log string string

text \<open>
  The fields of \<^verbatim>\<open>Track\<close>. \<open>info_ev\<close> is the flag of the event of that name. The event
  \<^verbatim>\<open>metadata_ev\<close> is set in one place only, in \<^verbatim>\<open>on_metadata\<close> after \<^verbatim>\<open>self.metadata\<close> has
  been stored, so it is set exactly when \<open>t_metadata\<close> is present and has no field of its
  own. The two locks serialise the bodies they guard; \<^verbatim>\<open>self.buffer\<close> and \<^verbatim>\<open>self.server\<close>
  are not read by any of the methods below apart from the metadata request.
  \<open>streams\<close> is the dictionary of streams, as the list of its items in the order the
  loops visit them; a key that is added is put last, and no statement below depends on
  where it is put.
\<close>

record track =
  uri :: string
  t_metadata :: "metadata option"
  info :: "track_info option"
  info_ev :: bool
  streams :: "(key \<times> stream_handle) list"
  limit_timer :: bool
  reading_start :: "real option"
  playing :: bool
  ended :: bool
  trace :: "event list"

definition reuse_distance :: int where
  "reuse_distance = 1024 * 1024"

definition final_distance :: int where
  "final_distance = 128 * 1024"

definition Track :: "string \<Rightarrow> track" where
  "Track u = \<lparr>uri = u, t_metadata = None, info = None, info_ev = False, streams = [],
     limit_timer = False, reading_start = None, playing = False, ended = False, trace = []\<rparr>"

definition logged :: "event list \<Rightarrow> track \<Rightarrow> track" where
  "logged es s = s\<lparr>trace := trace s @ es\<rparr>"

section \<open>Setup and its callbacks\<close>

text \<open>
  What the collaborators answer is an input of the model. \<open>md_reply\<close> is the metadata
  object the service calls \<^verbatim>\<open>on_metadata\<close> with, or \<open>None\<close> when it never does.
  \<open>info_reply\<close> is what the resolver has delivered by the time \<^verbatim>\<open>info_ev.wait(timeout=5)\<close>
  returns: the success callback, the error callback, or nothing. \<open>clock\<close> is the reading
  of \<^verbatim>\<open>time.time()\<close> taken by \<^verbatim>\<open>on_start\<close>, in seconds.

  The callbacks run on the thread that delivers them: the caller of \<^verbatim>\<open>setup\<close> sits in
  \<^verbatim>\<open>wait\<close>. An exception raised inside a callback therefore ends the callback, after the
  assignments it has made, and does not reach the caller of \<^verbatim>\<open>setup\<close>.
\<close>

datatype reply = Success response | Failure string | Timeout

record environment =
  md_reply :: "metadata option"
  info_reply :: reply
  clock :: real

definition on_metadata :: "metadata \<Rightarrow> track \<Rightarrow> track" where
  "on_metadata md s =
    (let found =
           (if \<not> available md then
              (case alternative md of
                 Some u \<Rightarrow> (md\<lparr>m_uri := u\<rparr>,
                   [Log ''info'' ''Track is not available, looking for an alternative...'',
                    Log ''info'' ''Alternative found''])
               | None \<Rightarrow> (md,
                   [Log ''info'' ''Track is not available, looking for an alternative...'',
                    Log ''warn'' ''No alternatives could be found'']))
            else (md, []));
         shown = map (\<lambda>x. Log ''info'' ''restriction'') (restrictions (fst found))
     in s\<lparr>t_metadata := Some (fst found),
          trace := trace s @ snd found @ shown @ [Emit ''metadata'']\<rparr>)"

definition on_start :: "real \<Rightarrow> track \<Rightarrow> error option \<times> track" where
  "on_start now s =
    (if playing s then (None, s)
     else
       let s1 = s\<lparr>limit_timer := True,
                  trace := trace s @ [Log ''info'' ''Started'', TimerStart]\<rparr>
       in case t_metadata s1 of
            None \<Rightarrow> (Some AttributeError, s1)
          | Some md \<Rightarrow>
              (case info s1 of
                 None \<Rightarrow> (Some TypeError, s1)
               | Some i \<Rightarrow>
                   (case map_of i ''lid'' of
                      None \<Rightarrow> (Some KeyError, s1)
                    | Some lid \<Rightarrow>
                        (None, s1\<lparr>reading_start := Some now, playing := True,
                                  trace := trace s1 @ [TrackEvent lid 3 0]\<rparr>))))"

definition on_track_uri :: "real \<Rightarrow> response \<Rightarrow> track \<Rightarrow> error option \<times> track" where
  "on_track_uri now resp s =
    on_start now
      (s\<lparr>info := map_of resp ''result'', info_ev := True,
         trace := trace s @ [Log ''debug'' ''received track info'', Emit ''track_uri'']\<rparr>)"

definition on_track_error :: "string \<Rightarrow> track \<Rightarrow> track" where
  "on_track_error err s =
    s\<lparr>info := None, info_ev := True,
      trace := trace s @ [Log ''warn'' ''track error'', Emit ''track_uri'']\<rparr>"

text \<open>
  \<^verbatim>\<open>setup\<close>: \<open>None\<close> is the call that never returns (\<^verbatim>\<open>metadata_ev.wait()\<close> has no
  timeout).
\<close>

definition setup_track :: "environment \<Rightarrow> track \<Rightarrow> (error option \<times> track) option" where
  "setup_track env s =
    (case (if t_metadata s = None then
             (case md_reply env of
                None \<Rightarrow> None
              | Some md \<Rightarrow> Some (on_metadata md (logged [SpMetadata (uri s)] s)))
           else Some s) of
       None \<Rightarrow> None
     | Some s2 \<Rightarrow>
         if info s2 = None then
           (case t_metadata s2 of
              None \<Rightarrow> Some (Some AttributeError, s2)
            | Some md \<Rightarrow>
                let s3 = logged [TrackUri] s2
                in Some (None,
                     (case info_reply env of
                        Success resp \<Rightarrow> snd (on_track_uri (clock env) resp s3)
                      | Failure err \<Rightarrow> on_track_error err s3
                      | Timeout \<Rightarrow> s3)))
         else Some (None, s2))"

section \<open>The rate limiter\<close>

definition limit_one :: "key \<times> stream_handle \<Rightarrow> key \<times> stream_handle" where
  "limit_one kv =
    (case kv of ((a, b), st) \<Rightarrow>
       if a = 0 \<and> (b = None \<or> b = Some 0) then ((a, b), st\<lparr>on_reading := False\<rparr>)
       else ((a, b), st\<lparr>once_buffered := Suc (once_buffered st)\<rparr>))"

definition limit_log :: "key \<times> stream_handle \<Rightarrow> event" where
  "limit_log kv =
    (case kv of ((a, b), st) \<Rightarrow>
       if a = 0 \<and> (b = None \<or> b = Some 0) then Log ''info'' ''Stream rate-limiting enabled''
       else Log ''info'' ''Stream priority enabled'')"

definition limit_set :: "track \<Rightarrow> track" where
  "limit_set s =
    (if length (streams s) < 2 then s
     else
       let streams_active = filter (\<lambda>kv. state (snd kv) = ''reading'') (streams s)
       in if length streams_active < 1 then s
          else s\<lparr>streams := map limit_one (streams s),
                 trace := trace s
                   @ [Log ''debug'' ''Multiple active streams, setting up rate-limits'']
                   @ map limit_log (streams s)\<rparr>)"

definition limit_reset :: "track \<Rightarrow> track" where
  "limit_reset s =
    (let cancelled = (if limit_timer s then [TimerCancel] else []);
         limited = list_ex (\<lambda>kv. \<not> on_reading (snd kv)) (streams s)
     in s\<lparr>limit_timer := False,
          streams := map (\<lambda>kv. (fst kv, (snd kv)\<lparr>on_reading := True\<rparr>)) (streams s),
          trace := trace s @ cancelled
            @ (if limited then [Log ''info'' ''Stream rate-limiting disabled''] else [])\<rparr>)"

definition limit_buffered :: "track \<Rightarrow> track" where
  "limit_buffered s =
    (let ready = list_all (\<lambda>kv. state (snd kv) = ''buffered'')
                   (filter (\<lambda>kv. on_reading (snd kv)) (streams s))
     in if \<not> ready then s
        else limit_reset (logged [Log ''info'' ''Priority streams have been buffered''] s))"

section \<open>Acquiring a stream\<close>

text \<open>
  The loop of \<^verbatim>\<open>Track.stream\<close> over the registered streams: each \<^verbatim>\<open>continue\<close> is a
  recursive call on the rest of the dictionary. The result is what the loop logged and the
  key of the stream it returns, if it returns one.
\<close>

definition end_lt :: "int option \<Rightarrow> int option \<Rightarrow> bool" where
  "end_lt a b = (case a of None \<Rightarrow> False | Some x \<Rightarrow> (case b of None \<Rightarrow> False | Some y \<Rightarrow> x < y))"

fun scan :: "range \<Rightarrow> (key \<times> stream_handle) list \<Rightarrow> event list \<times> key option" where
  "scan r [] = ([], None)"
| "scan r (((s_start, s_end), st) # rest) =
    (if s_start > r_start r then scan r rest
     else if s_end \<noteq> r_end r \<and> (r_end r = None \<or> s_end = None) then scan r rest
     else if s_end \<noteq> r_end r \<and> end_lt s_end (r_end r) then scan r rest
     else if \<not> on_open st then
       (Log ''info'' ''Timeout while waiting for stream to open'' # fst (scan r rest),
        snd (scan r rest))
     else
       let buf_distance = (r_start r - s_start) - int (buffer_len st);
           end_distance = total_length st - r_start r
       in if buf_distance > reuse_distance \<and> end_distance < final_distance then
            (Log ''info'' ''Buffer is far away and range is near the end of the track - ignoring it''
               # fst (scan r rest),
             snd (scan r rest))
          else ([Log ''info'' ''Returning existing stream with similar range''],
                Some (s_start, s_end)))"

text \<open>
  \<^verbatim>\<open>Track.stream\<close>. The handle it returns is a reference to a registered stream object;
  entries of the dictionary are only ever added under a key that is not yet there, so the
  key names the object, and the model returns the key. \<open>Inr None\<close> is the return of
  \<^verbatim>\<open>None\<close>; the outer \<open>None\<close> is the call that never returns.
\<close>

definition info_missing :: "track_info option \<Rightarrow> bool" where
  "info_missing i = (case i of None \<Rightarrow> True | Some d \<Rightarrow> d = [] \<or> map_of d ''uri'' = None)"

definition stream ::
  "environment \<Rightarrow> stream_handle \<Rightarrow> range option \<Rightarrow> track
    \<Rightarrow> ((error + key option) \<times> track) option" where
  "stream env init r_opt s =
    (let r_range = (case r_opt of None \<Rightarrow> Range_t 0 None | Some r \<Rightarrow> r)
     in case map_of (streams s) (tuple r_range) of
          Some st \<Rightarrow>
            (case setup_track env (logged [Log ''info'' ''Returning existing stream''] s) of
               None \<Rightarrow> None
             | Some (Some e, s1) \<Rightarrow> Some (Inl e, s1)
             | Some (None, s1) \<Rightarrow> Some (Inr (Some (tuple r_range)), s1))
        | None \<Rightarrow>
            (case snd (scan r_range (streams s)) of
               Some k \<Rightarrow>
                 (case setup_track env (logged (fst (scan r_range (streams s))) s) of
                    None \<Rightarrow> None
                  | Some (Some e, s1) \<Rightarrow> Some (Inl e, s1)
                  | Some (None, s1) \<Rightarrow> Some (Inr (Some k), s1))
             | None \<Rightarrow>
                 let s0 = (logged (fst (scan r_range (streams s))
                             @ [Log ''info'' ''Building stream for track'']) s)
                       \<lparr>streams := AList.update (tuple r_range)
                          (Stream (length (streams s)) r_range init) (streams s)\<rparr>
                 in case setup_track env s0 of
                      None \<Rightarrow> None
                    | Some (Some e, s1) \<Rightarrow> Some (Inl e, s1)
                    | Some (None, s1) \<Rightarrow>
                        if info_missing (info s1) then Some (Inr None, s1)
                        else Some (Inr (Some (tuple r_range)), limit_set s1)))"

section \<open>Position and end of playback\<close>

text \<open>
  \<^verbatim>\<open>int(x)\<close> on a float truncates towards zero. Time is a real number of seconds; the
  rounding of floating-point arithmetic is not modelled. \<^verbatim>\<open>if self.reading_start:\<close> is the
  truth value of an optional float: false for \<^verbatim>\<open>None\<close> and for \<^verbatim>\<open>0.0\<close>.
\<close>

definition py_int :: "real \<Rightarrow> int" where
  "py_int x = (if 0 \<le> x then \<lfloor>x\<rfloor> else \<lceil>x\<rceil>)"

definition position :: "real \<Rightarrow> track \<Rightarrow> error + int" where
  "position now s =
    (let p = (case reading_start s of
                None \<Rightarrow> 0
              | Some t \<Rightarrow> if t = 0 then 0 else py_int ((now - t) * 1000))
     in case t_metadata s of
          None \<Rightarrow> Inl AttributeError
        | Some md \<Rightarrow> if p > duration md then Inr (duration md) else Inr p)"

text \<open>
  \<^verbatim>\<open>Track.end\<close> reads the position twice, once for the debug line and once for the event;
  \<open>now1\<close> and \<open>now2\<close> are the two readings of the clock.
\<close>

definition track_end :: "real \<Rightarrow> real \<Rightarrow> track \<Rightarrow> error option \<times> track" where
  "track_end now1 now2 s =
    (if \<not> playing s \<or> ended s then
       (None, logged [Log ''warn'' ''Invalid Track.end() call''] s)
     else
       case position now1 s of
         Inl e \<Rightarrow> (Some e, s)
       | Inr p1 \<Rightarrow>
           let s1 = logged [Log ''debug'' ''Sending track_end event''] s
           in case t_metadata s1 of
                None \<Rightarrow> (Some AttributeError, s1)
              | Some md \<Rightarrow>
                  (case info s1 of
                     None \<Rightarrow> (Some TypeError, s1)
                   | Some i \<Rightarrow>
                       (case map_of i ''lid'' of
                          None \<Rightarrow> (Some KeyError, s1)
                        | Some lid \<Rightarrow>
                            (case position now2 s1 of
                               Inl e \<Rightarrow> (Some e, s1)
                             | Inr p \<Rightarrow>
                                 (None, s1\<lparr>ended := True,
                                           trace := trace s1 @ [TrackEnd lid p]\<rparr>)))))"

section \<open>The statements of the specification\<close>

text \<open>
  The reuse policy in the words of the specification: a registered candidate serves the
  request when its start is not after the requested start; its end equals the requested
  end, or both ends are bounded and the candidate's is not the smaller; the wait for its
  open signal succeeds; and it is not so that the buffer gap exceeds 1,048,576 while the
  tail distance is below 131,072.
\<close>

definition reusable :: "range \<Rightarrow> key \<times> stream_handle \<Rightarrow> bool" where
  "reusable r c =
    (case c of ((s_start, s_end), st) \<Rightarrow>
       s_start \<le> r_start r
       \<and> (s_end = r_end r
          \<or> (case s_end of
                None \<Rightarrow> False
              | Some a \<Rightarrow> (case r_end r of None \<Rightarrow> False | Some b \<Rightarrow> b \<le> a)))
       \<and> on_open st
       \<and> \<not> ((r_start r - s_start) - int (buffer_len st) > 1048576
            \<and> total_length st - r_start r < 131072))"

text \<open>
  The stream-source info the session holds once a call of \<^verbatim>\<open>setup\<close> has returned: the
  one it held, or else what the resolver delivered in time.
\<close>

definition info_after :: "environment \<Rightarrow> track \<Rightarrow> track_info option" where
  "info_after env s =
    (case info s of
       Some i \<Rightarrow> Some i
     | None \<Rightarrow> (case info_reply env of
                  Success resp \<Rightarrow> map_of resp ''result''
                | Failure err \<Rightarrow> None
                | Timeout \<Rightarrow> None))"

section \<open>Runs of calls and what they ask of the collaborators\<close>









definition is_end :: "event \<Rightarrow> bool" where
  "is_end e = (case e of TrackEnd lid p \<Rightarrow> True | _ \<Rightarrow> False)"

definition ends :: "track \<Rightarrow> nat" where
  "ends s = length (filter is_end (trace s))"

section \<open>Sessions and answers used as examples\<close>

definition some_metadata :: metadata where
  "some_metadata = \<lparr>m_uri = ''spotify:track:a'', available = True, alternative = None,
     restrictions = [], duration = 200000\<rparr>"

definition new_handle :: stream_handle where
  "new_handle = \<lparr>index = 0, s_range = Range_t 0 None, buffer_len = 0, total_length = 0,
     state = ''opening'', on_open = False, on_reading = True, once_buffered = 0\<rparr>"

definition open_handle :: "nat \<Rightarrow> range \<Rightarrow> nat \<Rightarrow> int \<Rightarrow> stream_handle" where
  "open_handle i r b n = \<lparr>index = i, s_range = r, buffer_len = b, total_length = n,
     state = ''reading'', on_open = True, on_reading = True, once_buffered = 0\<rparr>"

definition env_timeout :: environment where
  "env_timeout = \<lparr>md_reply = Some some_metadata, info_reply = Timeout, clock = 1000\<rparr>"

definition two_streams :: track where
  "two_streams = (Track ''spotify:track:a'')
     \<lparr>streams := [((0, Some 100), open_handle 0 (Range_t 0 (Some 100)) 0 5000000),
                  ((0, None), open_handle 1 (Range_t 0 None) 0 5000000)]\<rparr>"

definition env_failure :: environment where
  "env_failure = \<lparr>md_reply = Some some_metadata, info_reply = Failure ''no stream'',
     clock = 1000\<rparr>"

definition env_success :: environment where
  "env_success = \<lparr>md_reply = Some some_metadata,
     info_reply = Success [(''result'', [(''uri'', ''http://cdn/a''), (''lid'', ''lid-a'')])],
     clock = 1000\<rparr>"

definition whole_track :: track where
  "whole_track = (Track ''spotify:track:a'')
     \<lparr>streams := [((0, None), open_handle 0 (Range_t 0 None) 0 5000000)]\<rparr>"

definition registered_no_info :: track where
  "registered_no_info = (Track ''spotify:track:a'')
     \<lparr>t_metadata := Some some_metadata,
      streams := [((0, None), open_handle 0 (Range_t 0 None) 0 5000000)]\<rparr>"

definition after_failed_acquire :: track where
  "after_failed_acquire =
    \<lparr>uri = ''spotify:track:a'', t_metadata = Some some_metadata, info = None, info_ev = True,
     streams = [((0, None), Stream 0 (Range_t 0 None) new_handle)],
     limit_timer = False, reading_start = None, playing = False, ended = False,
     trace = [Log ''info'' ''Building stream for track'', SpMetadata ''spotify:track:a'',
              Emit ''metadata'', TrackUri, Log ''warn'' ''track error'', Emit ''track_uri'']\<rparr>"

definition after_timed_out_acquire :: track where
  "after_timed_out_acquire =
    \<lparr>uri = ''spotify:track:b'', t_metadata = Some some_metadata, info = None, info_ev = False,
     streams = [((5, Some 9), Stream 0 (Range_t 5 (Some 9)) new_handle)],
     limit_timer = False, reading_start = None, playing = False, ended = False,
     trace = [Log ''info'' ''Building stream for track'', SpMetadata ''spotify:track:b'',
              Emit ''metadata'', TrackUri]\<rparr>"

definition env_no_result :: environment where
  "env_no_result = \<lparr>md_reply = Some some_metadata, info_reply = Success [], clock = 1000\<rparr>"

definition resp_ok :: response where
  "resp_ok = [(''result'', [(''uri'', ''http://cdn/a''), (''lid'', ''lid-a'')])]"

definition probe_and_seek :: track where
  "probe_and_seek = (Track ''spotify:track:a'')
     \<lparr>streams := [((0, Some 0), open_handle 0 (Range_t 0 (Some 0)) 1 5000000),
                  ((4096, None), open_handle 1 (Range_t 4096 None) 0 5000000)]\<rparr>"

definition waiting_for_info :: track where
  "waiting_for_info = on_metadata some_metadata (Track ''spotify:track:a'')"

definition started_then_failed :: track where
  "started_then_failed =
     on_track_error ''late answer'' (snd (on_track_uri 1000 resp_ok waiting_for_info))"

definition started_at :: "real \<Rightarrow> track" where
  "started_at t = (Track ''spotify:track:a'')
     \<lparr>t_metadata := Some some_metadata, info := Some [(''uri'', ''http://cdn/a''), (''lid'', ''lid-a'')],
      reading_start := Some t, playing := True\<rparr>"

section \<open>Facts about setup and the scan\<close>

lemma scan_find: "snd (scan r xs) = map_option fst (find (reusable r) xs)"
proof (induction xs)
  case Nil
  show ?case by simp
next
  case (Cons x xs)
  obtain a b st where x: "x = ((a, b), st)" by (metis surj_pair)
  show ?case using Cons unfolding x
    by (auto simp: reusable_def end_lt_def reuse_distance_def final_distance_def Let_def
        split: option.splits)
qed

lemma setup_no_raise: "setup_track env s = Some (e, s') \<Longrightarrow> e = None"
  by (auto simp: setup_track_def on_metadata_def logged_def Let_def
      split: option.splits if_splits)

lemma setup_returns:
  "(setup_track env s \<noteq> None) = (t_metadata s \<noteq> None \<or> md_reply env \<noteq> None)"
  by (auto simp: setup_track_def on_metadata_def logged_def Let_def
      split: option.splits if_splits)

lemma on_start_streams: "streams (snd (on_start now s)) = streams s"
  by (auto simp: on_start_def Let_def split: option.splits)

lemma setup_streams: "setup_track env s = Some (e, s') \<Longrightarrow> streams s' = streams s"
  by (auto simp: setup_track_def on_metadata_def on_track_uri_def on_track_error_def
      on_start_streams logged_def Let_def split: option.splits if_splits reply.splits)

lemma setup_total:
  assumes "t_metadata s \<noteq> None \<or> md_reply env \<noteq> None"
  obtains s' where "setup_track env s = Some (None, s')" and "streams s' = streams s"
proof -
  from assms have "setup_track env s \<noteq> None" using setup_returns [of env s] by blast
  then obtain e s' where h: "setup_track env s = Some (e, s')"
    by (cases "setup_track env s") auto
  from setup_no_raise [OF h] setup_streams [OF h] h that show thesis by simp
qed

lemma limit_set_keys: "map fst (streams (limit_set s)) = map fst (streams s)"
  by (auto simp: limit_set_def limit_one_def Let_def split: prod.splits)

lemma limit_one_fields:
  "fst (limit_one kv) = fst kv" "index (snd (limit_one kv)) = index (snd kv)"
  "s_range (snd (limit_one kv)) = s_range (snd kv)"
  by (auto simp: limit_one_def split: prod.splits)

lemma map_of_limit_one:
  "map_of (map limit_one xs) k = map_option (\<lambda>st. snd (limit_one (k, st))) (map_of xs k)"
  by (induction xs) (auto simp: limit_one_def split: prod.splits)

lemma limit_set_lookup:
  "map_of (streams s) k = Some h \<Longrightarrow>
   \<exists>h'. map_of (streams (limit_set s)) k = Some h' \<and> index h' = index h
     \<and> s_range h' = s_range h"
  by (auto simp: limit_set_def Let_def map_of_limit_one limit_one_fields)

lemma update_fresh: "map_of xs k = None \<Longrightarrow> AList.update k v xs = xs @ [(k, v)]"
  by (induction xs) (auto split: if_splits)

section \<open>The three ways a stream is acquired\<close>

lemma on_start_info: "info (snd (on_start now s)) = info s"
  by (auto simp: on_start_def Let_def split: option.splits)

lemma on_start_metadata: "t_metadata (snd (on_start now s)) = t_metadata s"
  by (auto simp: on_start_def Let_def split: option.splits)

lemma setup_info: "setup_track env s = Some (e, s') \<Longrightarrow> info s' = info_after env s"
  by (auto simp: setup_track_def info_after_def on_metadata_def on_track_uri_def
      on_track_error_def on_start_info logged_def Let_def
      split: option.splits if_splits reply.splits)

lemma setup_metadata: "setup_track env s = Some (e, s') \<Longrightarrow> t_metadata s' \<noteq> None"
  by (auto simp: setup_track_def on_metadata_def on_track_uri_def
      on_track_error_def on_start_metadata logged_def Let_def
      split: option.splits if_splits reply.splits)

lemma stream_exact:
  assumes "map_of (streams s) (tuple r) = Some st"
      and "t_metadata s \<noteq> None \<or> md_reply env \<noteq> None"
  obtains s' where "stream env init (Some r) s = Some (Inr (Some (tuple r)), s')"
    and "streams s' = streams s" and "t_metadata s' \<noteq> None"
proof -
  let ?s0 = "logged [Log ''info'' ''Returning existing stream''] s"
  have "t_metadata ?s0 \<noteq> None \<or> md_reply env \<noteq> None" using assms(2) by (simp add: logged_def)
  then obtain s' where h: "setup_track env ?s0 = Some (None, s')"
    and st: "streams s' = streams ?s0"
    by (rule setup_total)
  have "stream env init (Some r) s = Some (Inr (Some (tuple r)), s')"
    using assms(1) h by (simp add: stream_def)
  with st setup_metadata [OF h] that show thesis by (simp add: logged_def)
qed

lemma stream_similar:
  assumes "map_of (streams s) (tuple r) = None"
      and "find (reusable r) (streams s) = Some c"
      and "t_metadata s \<noteq> None \<or> md_reply env \<noteq> None"
  obtains s' where "stream env init (Some r) s = Some (Inr (Some (fst c)), s')"
    and "streams s' = streams s" and "t_metadata s' \<noteq> None"
proof -
  have sc: "snd (scan r (streams s)) = Some (fst c)" using assms(2) by (simp add: scan_find)
  let ?s0 = "logged (fst (scan r (streams s))) s"
  have "t_metadata ?s0 \<noteq> None \<or> md_reply env \<noteq> None" using assms(3) by (simp add: logged_def)
  then obtain s' where h: "setup_track env ?s0 = Some (None, s')"
    and st: "streams s' = streams ?s0"
    by (rule setup_total)
  have "stream env init (Some r) s = Some (Inr (Some (fst c)), s')"
    using assms(1) sc h by (simp add: stream_def)
  with st setup_metadata [OF h] that show thesis by (simp add: logged_def)
qed

lemma info_after_logged:
  "info_after env (logged es s\<lparr>streams := xs\<rparr>) = info_after env s"
  by (simp add: info_after_def logged_def)


lemma limit_set_info: "info (limit_set s) = info s"
  by (simp add: limit_set_def Let_def)

lemma limit_set_length: "length (streams (limit_set s)) = length (streams s)"
  by (simp add: limit_set_def Let_def)

lemma stream_new:
  assumes "map_of (streams s) (tuple r) = None"
      and "find (reusable r) (streams s) = None"
      and "t_metadata s \<noteq> None \<or> md_reply env \<noteq> None"
  obtains s1 where
    "stream env init (Some r) s =
       Some (if info_missing (info_after env s) then (Inr None, s1)
             else (Inr (Some (tuple r)), limit_set s1))"
    and "streams s1 = streams s @ [(tuple r, Stream (length (streams s)) r init)]"
    and "t_metadata s1 \<noteq> None" and "info s1 = info_after env s"
proof -
  have sc: "snd (scan r (streams s)) = None" using assms(2) by (simp add: scan_find)
  let ?new = "Stream (length (streams s)) r init"
  let ?s0 = "(logged (fst (scan r (streams s)) @ [Log ''info'' ''Building stream for track'']) s)
               \<lparr>streams := AList.update (tuple r) ?new (streams s)\<rparr>"
  have st0: "streams ?s0 = streams s @ [(tuple r, ?new)]"
    using assms(1) by (simp add: update_fresh)
  have "t_metadata ?s0 \<noteq> None \<or> md_reply env \<noteq> None" using assms(3) by (simp add: logged_def)
  then obtain s1 where h: "setup_track env ?s0 = Some (None, s1)"
    and st: "streams s1 = streams ?s0"
    by (rule setup_total)
  have i: "info s1 = info_after env s"
    using setup_info [OF h] by (simp add: info_after_logged)
  have "stream env init (Some r) s =
       Some (if info_missing (info_after env s) then (Inr None, s1)
             else (Inr (Some (tuple r)), limit_set s1))"
    using assms(1) sc h i by (simp add: stream_def Let_def)
  with st st0 i setup_metadata [OF h] that show thesis by simp
qed

lemma setup_blocks: "t_metadata s = None \<Longrightarrow> md_reply env = None \<Longrightarrow> setup_track env s = None"
  by (simp add: setup_track_def)

lemma stream_blocks:
  "t_metadata s = None \<Longrightarrow> md_reply env = None \<Longrightarrow> stream env init r_opt s = None"
  by (simp add: stream_def Let_def setup_blocks logged_def split: option.splits)

lemma stream_answered:
  "stream env init r_opt s = Some x \<Longrightarrow> t_metadata s \<noteq> None \<or> md_reply env \<noteq> None"
  using stream_blocks [of s env init r_opt] by auto

lemmas fixture_defs = some_metadata_def new_handle_def open_handle_def env_timeout_def
  env_failure_def env_success_def whole_track_def registered_no_info_def two_streams_def
  after_failed_acquire_def after_timed_out_acquire_def resp_ok_def probe_and_seek_def
  env_no_result_def
  waiting_for_info_def started_then_failed_def started_at_def

lemmas model_defs = stream_def setup_track_def on_metadata_def on_track_uri_def
  on_track_error_def on_start_def logged_def Track_def Range_t_def tuple_def Stream_def
  info_missing_def limit_set_def end_lt_def reuse_distance_def final_distance_def Let_def

lemma limit_set_keyset: "fst ` set (streams (limit_set s)) = fst ` set (streams s)"
  using limit_set_keys [of s] by (metis set_map)

section \<open>The reuse policy\<close>

text \<open>
  Claim C1. A request whose range has no exact match in the registry, on a session whose
  metadata phase completes: the stream that is reused is the first registered candidate,
  in the order of the scan, that satisfies the policy of the specification, and the
  registry is left as it was. If no candidate satisfies it, the call returns, and the
  registry has gained exactly one entry, under the requested range: a stream whose index
  is the former size of the registry and whose range is the requested one.
\<close>

theorem reuse_matcher_policy:
  assumes nomatch: "map_of (streams s) (tuple r) = None"
      and ret: "t_metadata s \<noteq> None \<or> md_reply env \<noteq> None"
  shows "case find (reusable r) (streams s) of
           Some c \<Rightarrow>
             map_option fst (stream env init (Some r) s) = Some (Inr (Some (fst c)))
             \<and> map_option (streams \<circ> snd) (stream env init (Some r) s) = Some (streams s)
         | None \<Rightarrow>
             (\<exists>res s' h. stream env init (Some r) s = Some (Inr res, s')
                \<and> length (streams s') = Suc (length (streams s))
                \<and> fst ` set (streams s') = insert (tuple r) (fst ` set (streams s))
                \<and> map_of (streams s') (tuple r) = Some h
                \<and> index h = length (streams s) \<and> s_range h = r)"
proof (cases "find (reusable r) (streams s)")
  case (Some c)
  from stream_similar [OF nomatch Some ret, of init] obtain s' where
    "stream env init (Some r) s = Some (Inr (Some (fst c)), s')" "streams s' = streams s"
    by blast
  with Some show ?thesis by simp
next
  case None
  let ?new = "Stream (length (streams s)) r init"
  from stream_new [OF nomatch None ret, of init] obtain s1 where
    e: "stream env init (Some r) s =
         Some (if info_missing (info_after env s) then (Inr None, s1)
               else (Inr (Some (tuple r)), limit_set s1))"
    and st: "streams s1 = streams s @ [(tuple r, ?new)]"
    by blast
  have look: "map_of (streams s1) (tuple r) = Some ?new"
    using nomatch st by (simp add: map_add_def)
  have idx: "index ?new = length (streams s)" "s_range ?new = r"
    by (simp_all add: Stream_def)
  have keys: "fst ` set (streams s1) = insert (tuple r) (fst ` set (streams s))"
    using st by auto
  show ?thesis
  proof (cases "info_missing (info_after env s)")
    case True
    with e have "stream env init (Some r) s = Some (Inr None, s1)" by simp
    then show ?thesis using None st look idx keys by simp
  next
    case False
    with e have e': "stream env init (Some r) s = Some (Inr (Some (tuple r)), limit_set s1)"
      by simp
    from limit_set_lookup [OF look] obtain h' where
      "map_of (streams (limit_set s1)) (tuple r) = Some h'"
      "index h' = index ?new" "s_range h' = s_range ?new"
      by blast
    then show ?thesis using None e' st idx keys
      by (simp add: limit_set_keyset limit_set_length)
  qed
qed

theorem reuse_matcher_policy_witness:
  "map_of (streams two_streams) (tuple (Range_t 10 None)) = None
   \<and> md_reply env_timeout = Some some_metadata
   \<and> find (reusable (Range_t 10 None)) (streams two_streams)
       = Some ((0, None), open_handle 1 (Range_t 0 None) 0 5000000)
   \<and> map_option fst (stream env_timeout new_handle (Some (Range_t 10 None)) two_streams)
       = Some (Inr (Some (0, None)))
   \<and> map_option (streams \<circ> snd)
         (stream env_timeout new_handle (Some (Range_t 10 None)) two_streams)
       = Some (streams two_streams)"
proof -
  have h1: "map_of (streams two_streams) (tuple (Range_t 10 None)) = None"
    by (simp add: two_streams_def tuple_def Range_t_def)
  have h2: "md_reply env_timeout = Some some_metadata"
    by (simp add: env_timeout_def)
  then have h3: "t_metadata two_streams \<noteq> None \<or> md_reply env_timeout \<noteq> None"
    by simp
  have f: "find (reusable (Range_t 10 None)) (streams two_streams)
             = Some ((0, None), open_handle 1 (Range_t 0 None) 0 5000000)"
    by (simp add: two_streams_def reusable_def Range_t_def open_handle_def)
  from reuse_matcher_policy [OF h1 h3, of new_handle] f h1 h2 show ?thesis by simp
qed

section \<open>Absent results\<close>

text \<open>
  Claim C2, as amended. On a session whose metadata phase completes, no call of
  \<^verbatim>\<open>Track.stream\<close> raises, and its result is: the handle registered under the requested
  range, if there is one; else the first registered candidate that serves the request, if
  there is one; else absent when the info held after the setup step is absent, empty or
  without the field \<^verbatim>\<open>uri\<close>, and the new handle otherwise. The result is absent in the
  last case only: an exact or compatible match is returned whatever the info.
\<close>

theorem acquire_result:
  assumes ret: "t_metadata s \<noteq> None \<or> md_reply env \<noteq> None"
  shows "map_option fst (stream env init (Some r) s) =
           Some (case map_of (streams s) (tuple r) of
                   Some st \<Rightarrow> Inr (Some (tuple r))
                 | None \<Rightarrow>
                     (case find (reusable r) (streams s) of
                        Some c \<Rightarrow> Inr (Some (fst c))
                      | None \<Rightarrow>
                          if info_missing (info_after env s) then Inr None
                          else Inr (Some (tuple r))))"
proof (cases "map_of (streams s) (tuple r)")
  case (Some st)
  from stream_exact [OF Some ret] obtain s' where
    "stream env init (Some r) s = Some (Inr (Some (tuple r)), s')" by blast
  with Some show ?thesis by simp
next
  case None
  show ?thesis
  proof (cases "find (reusable r) (streams s)")
    case (Some c)
    from stream_similar [OF None Some ret] obtain s' where
      "stream env init (Some r) s = Some (Inr (Some (fst c)), s')" by blast
    with None Some show ?thesis by simp
  next
    case n: None
    from stream_new [OF None n ret] obtain s1 where
      "stream env init (Some r) s =
         Some (if info_missing (info_after env s) then (Inr None, s1)
               else (Inr (Some (tuple r)), limit_set s1))" by blast
    with None n show ?thesis by simp
  qed
qed

theorem acquire_result_witness:
  "md_reply env_failure = Some some_metadata
   \<and> info_missing (info_after env_failure (Track ''spotify:track:a''))
   \<and> map_option fst (stream env_failure new_handle (Some (Range_t 5 (Some 9)))
         (Track ''spotify:track:a'')) = Some (Inr None)"
proof -
  have h: "t_metadata (Track ''spotify:track:a'') \<noteq> None \<or> md_reply env_failure \<noteq> None"
    by (simp add: env_failure_def)
  from acquire_result [OF h, of new_handle "Range_t 5 (Some 9)"]
  show ?thesis
    by (simp add: env_failure_def Track_def info_after_def info_missing_def)
qed

text \<open>
  The claim as it was stated fails: with the info absent and the resolver failing, a
  request that matches a registered stream, exactly or compatibly, is given that stream.
\<close>

theorem acquire_exact_match_counterexample:
  "info registered_no_info = None
   \<and> map_option fst (stream env_failure new_handle (Some (Range_t 0 None)) registered_no_info)
       = Some (Inr (Some (0, None)))
   \<and> map_option (info \<circ> snd)
         (stream env_failure new_handle (Some (Range_t 0 None)) registered_no_info)
       = Some None
   \<and> map_option fst (stream env_failure new_handle (Some (Range_t 10 None)) registered_no_info)
       = Some (Inr (Some (0, None)))"
  by (simp add: fixture_defs model_defs)

text \<open>
  Claim C10. When a call returns absent, it had created a stream (index the former size of
  the registry, range the requested one), the stream is still registered afterwards, and
  any later call for the same range returns that handle and leaves the registry as it is,
  whatever the resolver answers then.
\<close>

theorem failed_acquire_stays_registered:
  assumes first: "stream env init (Some r) s = Some (Inr None, s1)"
  shows "(\<exists>h. map_of (streams s1) (tuple r) = Some h \<and> index h = length (streams s)
            \<and> s_range h = r)
         \<and> map_option fst (stream env2 init2 (Some r) s1) = Some (Inr (Some (tuple r)))
         \<and> map_option (streams \<circ> snd) (stream env2 init2 (Some r) s1) = Some (streams s1)"
proof -
  have ret: "t_metadata s \<noteq> None \<or> md_reply env \<noteq> None"
    using first by (rule stream_answered)
  have nomatch: "map_of (streams s) (tuple r) = None"
  proof (cases "map_of (streams s) (tuple r)")
    case (Some st)
    from stream_exact [OF Some ret, of init] first show ?thesis by auto
  qed simp
  have nocand: "find (reusable r) (streams s) = None"
  proof (cases "find (reusable r) (streams s)")
    case (Some c)
    from stream_similar [OF nomatch Some ret, of init] first show ?thesis by auto
  qed simp
  from stream_new [OF nomatch nocand ret, of init] obtain s1' where
    e: "stream env init (Some r) s =
         Some (if info_missing (info_after env s) then (Inr None, s1')
               else (Inr (Some (tuple r)), limit_set s1'))"
    and st: "streams s1' = streams s @ [(tuple r, Stream (length (streams s)) r init)]"
    and md: "t_metadata s1' \<noteq> None"
    by blast
  from e first have eq: "s1 = s1'" by (simp split: if_splits)
  have look: "map_of (streams s1) (tuple r) = Some (Stream (length (streams s)) r init)"
    using nomatch st eq by (simp add: map_add_def)
  have ret2: "t_metadata s1 \<noteq> None \<or> md_reply env2 \<noteq> None" using md eq by simp
  from stream_exact [OF look ret2, of init2] obtain s2 where
    "stream env2 init2 (Some r) s1 = Some (Inr (Some (tuple r)), s2)" "streams s2 = streams s1"
    by blast
  with look show ?thesis by (simp add: Stream_def)
qed

theorem failed_acquire_stays_registered_witness:
  "stream env_timeout new_handle (Some (Range_t 5 (Some 9))) (Track ''spotify:track:b'')
     = Some (Inr None, after_timed_out_acquire)
   \<and> map_option fst
         (stream env_failure new_handle (Some (Range_t 5 (Some 9))) after_timed_out_acquire)
       = Some (Inr (Some (5, Some 9)))
   \<and> map_option (info \<circ> snd)
         (stream env_failure new_handle (Some (Range_t 5 (Some 9))) after_timed_out_acquire)
       = Some None"
proof -
  have h: "stream env_timeout new_handle (Some (Range_t 5 (Some 9))) (Track ''spotify:track:b'')
     = Some (Inr None, after_timed_out_acquire)"
    by (simp add: fixture_defs model_defs)
  have i: "map_option (info \<circ> snd)
         (stream env_failure new_handle (Some (Range_t 5 (Some 9))) after_timed_out_acquire)
       = Some None"
    by (simp add: fixture_defs model_defs)
  from failed_acquire_stays_registered [OF h, of env_failure new_handle] h i
  show ?thesis by (simp add: tuple_def Range_t_def)
qed

section \<open>Two successive requests for one range\<close>




section \<open>The example of the specification\<close>

text \<open>
  Claim C3, as amended. One registered stream of range 0 to unbounded, nothing buffered,
  total length 5,000,000, and a request for 2,000,000 to unbounded: when the wait for the
  stream's open signal succeeds the stream is reused and the registry keeps its one entry
  (the buffer gap, 2,000,000, exceeds the threshold, but the tail distance, 3,000,000, is
  not below 131,072, and a candidate is rejected only when both hold). Only when the wait
  times out is a stream created, which leaves two entries.
\<close>

theorem whole_track_then_seek:
  assumes reg: "streams s = [((0, None), st)]"
      and buf: "buffer_len st = 0" and len: "total_length st = 5000000"
      and ret: "t_metadata s \<noteq> None \<or> md_reply env \<noteq> None"
  shows "map_option (length \<circ> streams \<circ> snd) (stream env init (Some (Range_t 2000000 None)) s)
           = Some (if on_open st then 1 else 2)
         \<and> (on_open st \<longrightarrow>
              map_option fst (stream env init (Some (Range_t 2000000 None)) s)
                = Some (Inr (Some (0, None))))"
proof -
  let ?r = "Range_t 2000000 None"
  have nomatch: "map_of (streams s) (tuple ?r) = None"
    using reg by (simp add: tuple_def Range_t_def)
  show ?thesis
  proof (cases "on_open st")
    case True
    then have f: "find (reusable ?r) (streams s) = Some ((0, None), st)"
      using reg buf len by (simp add: reusable_def Range_t_def)
    from stream_similar [OF nomatch f ret, of init] obtain s' where
      "stream env init (Some ?r) s = Some (Inr (Some (0, None)), s')" "streams s' = streams s"
      by auto
    with True reg show ?thesis by simp
  next
    case False
    then have f: "find (reusable ?r) (streams s) = None"
      using reg by (simp add: reusable_def Range_t_def)
    from stream_new [OF nomatch f ret, of init] obtain s1 where
      e: "stream env init (Some ?r) s =
         Some (if info_missing (info_after env s) then (Inr None, s1)
               else (Inr (Some (tuple ?r)), limit_set s1))"
      and st: "streams s1 = streams s @ [(tuple ?r, Stream (length (streams s)) ?r init)]"
      by blast
    have "map_option (length \<circ> streams \<circ> snd) (stream env init (Some ?r) s) = Some 2"
      using e st reg by (simp add: limit_set_length)
    with False show ?thesis by simp
  qed
qed

theorem whole_track_then_seek_witness:
  "streams whole_track = [((0, None), open_handle 0 (Range_t 0 None) 0 5000000)]
   \<and> md_reply env_success = Some some_metadata
   \<and> map_option (length \<circ> streams \<circ> snd)
         (stream env_success new_handle (Some (Range_t 2000000 None)) whole_track)
       = Some 1
   \<and> map_option fst (stream env_success new_handle (Some (Range_t 2000000 None)) whole_track)
       = Some (Inr (Some (0, None)))"
proof -
  have reg: "streams whole_track = [((0, None), open_handle 0 (Range_t 0 None) 0 5000000)]"
    by (simp add: whole_track_def)
  have b: "buffer_len (open_handle 0 (Range_t 0 None) 0 5000000) = 0"
    and l: "total_length (open_handle 0 (Range_t 0 None) 0 5000000) = 5000000"
    and opn: "on_open (open_handle 0 (Range_t 0 None) 0 5000000)"
    by (simp_all add: open_handle_def)
  have m: "md_reply env_success = Some some_metadata" by (simp add: env_success_def)
  then have ret: "t_metadata whole_track \<noteq> None \<or> md_reply env_success \<noteq> None" by simp
  from whole_track_then_seek [OF reg b l ret, of new_handle] opn reg m
  show ?thesis by simp
qed

text \<open>
  The claim as it was stated fails on such a session whose stream has opened.
\<close>

theorem whole_track_then_seek_counterexample:
  "streams whole_track = [((0, None), open_handle 0 (Range_t 0 None) 0 5000000)]
   \<and> map_option fst (stream env_timeout new_handle (Some (Range_t 2000000 None)) whole_track)
       = Some (Inr (Some (0, None)))
   \<and> map_option (length \<circ> streams \<circ> snd)
         (stream env_timeout new_handle (Some (Range_t 2000000 None)) whole_track)
       = Some 1"
  by (simp add: fixture_defs model_defs)

section \<open>Setup is run once, resolution until it succeeds\<close>










section \<open>Rate limits\<close>

lemma limit_set_idle:
  "length (streams s) < 2 \<or> filter (\<lambda>kv. state (snd kv) = ''reading'') (streams s) = []
   \<Longrightarrow> limit_set s = s"
  by (auto simp: limit_set_def Let_def)

lemma limit_set_active:
  "2 \<le> length (streams s) \<Longrightarrow> kv \<in> set (streams s) \<Longrightarrow> state (snd kv) = ''reading''
   \<Longrightarrow> streams (limit_set s) = map limit_one (streams s)"
  by (auto simp: limit_set_def Let_def filter_empty_conv)

text \<open>
  What \<^verbatim>\<open>limit_set\<close> does: nothing with fewer than two streams or with no stream in state
  \<^verbatim>\<open>reading\<close>; otherwise it clears the gate of each stream whose start is 0 and whose end
  is absent or 0, and adds one subscription to each other stream. \<^verbatim>\<open>limit_reset\<close> opens
  every gate and drops the timer, and a second reset changes nothing.
\<close>

lemma limit_set_effect:
  assumes "2 \<le> length (streams s)"
      and "list_ex (\<lambda>kv. state (snd kv) = ''reading'') (streams s)"
  shows "length (streams (limit_set s)) = length (streams s)
         \<and> (\<forall>i < length (streams s).
              fst (streams (limit_set s) ! i) = fst (streams s ! i)
              \<and> snd (streams (limit_set s) ! i) =
                  (if fst (fst (streams s ! i)) = 0
                      \<and> (snd (fst (streams s ! i)) = None \<or> snd (fst (streams s ! i)) = Some 0)
                   then (snd (streams s ! i))\<lparr>on_reading := False\<rparr>
                   else (snd (streams s ! i))
                          \<lparr>once_buffered := Suc (once_buffered (snd (streams s ! i)))\<rparr>))"
proof -
  from assms(2) obtain kv where "kv \<in> set (streams s)" "state (snd kv) = ''reading''"
    by (auto simp: list_ex_iff)
  with assms(1) have "streams (limit_set s) = map limit_one (streams s)"
    by (rule limit_set_active)
  then show ?thesis by (auto simp: limit_one_def split: prod.splits)
qed

lemma limit_set_unchanged:
  assumes "length (streams s) < 2 \<or> \<not> list_ex (\<lambda>kv. state (snd kv) = ''reading'') (streams s)"
  shows "limit_set s = s"
  using assms by (auto simp: limit_set_def Let_def list_ex_iff filter_empty_conv)

lemma limit_reset_opens_all:
  "list_all (\<lambda>kv. on_reading (snd kv)) (streams (limit_reset s))
   \<and> map fst (streams (limit_reset s)) = map fst (streams s)
   \<and> \<not> limit_timer (limit_reset s)
   \<and> streams (limit_reset (limit_reset s)) = streams (limit_reset s)
   \<and> trace (limit_reset (limit_reset s)) = trace (limit_reset s)"
  by (auto simp: limit_reset_def Let_def list_all_iff list_ex_iff comp_def)

text \<open>
  Claim C6 says that the gate is cleared for exactly the streams whose range is 0 to
  unbounded, and that every other stream is subscribed. The test of the code is
  \<^verbatim>\<open>not start and not end\<close>, which an end of 0 passes as well: with a stream of range
  0 to 0 and a second stream, both reading, the gate of the first is cleared and it gets
  no subscription.
\<close>

theorem limit_set_first_byte_range:
  "map fst (streams probe_and_seek) = [(0, Some 0), (4096, None)]
   \<and> map (on_reading \<circ> snd) (streams probe_and_seek) = [True, True]
   \<and> map (on_reading \<circ> snd) (streams (limit_set probe_and_seek)) = [False, True]
   \<and> map (once_buffered \<circ> snd) (streams (limit_set probe_and_seek)) = [0, 1]"
  by (simp add: fixture_defs limit_set_def limit_one_def Track_def Let_def)

section \<open>The end of playback\<close>

lemma position_value:
  "t_metadata s = Some md \<Longrightarrow>
   position now s = Inr (min (duration md)
     (case reading_start s of None \<Rightarrow> 0
      | Some t \<Rightarrow> if t = 0 then 0 else py_int ((now - t) * 1000)))"
  by (auto simp: position_def Let_def min_def split: option.splits)

text \<open>
  Claim C7, as amended. A call of \<^verbatim>\<open>end\<close> while the session is not playing, or has ended,
  raises nothing and changes nothing but the log, which gains one warning. A call while
  it is playing and has not ended, on a session that holds its metadata and an info with
  the field \<^verbatim>\<open>lid\<close>, raises nothing, sets \<open>ended\<close> and emits exactly one "ended"
  notification, which carries the position read at that moment. No call emits an "ended"
  notification unless the session is playing and has not ended.
\<close>

theorem end_effective_once:
  "(\<not> playing s \<or> ended s \<longrightarrow>
      track_end now1 now2 s = (None, logged [Log ''warn'' ''Invalid Track.end() call''] s))
   \<and> (playing s \<and> \<not> ended s \<and> t_metadata s = Some md \<and> info s = Some i
        \<and> map_of i ''lid'' = Some lid \<longrightarrow>
      (\<exists>p. position now2 s = Inr p
         \<and> track_end now1 now2 s =
             (None, s\<lparr>ended := True,
                      trace := trace s @ [Log ''debug'' ''Sending track_end event'',
                                          TrackEnd lid p]\<rparr>)))
   \<and> (ends (snd (track_end now1 now2 s)) \<noteq> ends s \<longrightarrow> playing s \<and> \<not> ended s)"
proof (intro conjI impI)
  assume "\<not> playing s \<or> ended s"
  then show "track_end now1 now2 s = (None, logged [Log ''warn'' ''Invalid Track.end() call''] s)"
    by (auto simp: track_end_def)
next
  assume a: "playing s \<and> \<not> ended s \<and> t_metadata s = Some md \<and> info s = Some i
        \<and> map_of i ''lid'' = Some lid"
  then have md: "t_metadata s = Some md" by simp
  have p1: "position now1 s = Inr (min (duration md)
     (case reading_start s of None \<Rightarrow> 0
      | Some t \<Rightarrow> if t = 0 then 0 else py_int ((now1 - t) * 1000)))"
    using md by (rule position_value)
  have same: "position now2 (s\<lparr>trace := tr\<rparr>) = position now2 s" for tr
    by (simp add: position_def)
  obtain p where p2: "position now2 s = Inr p" using position_value [OF md] by blast
  have "track_end now1 now2 s =
             (None, s\<lparr>ended := True,
                      trace := trace s @ [Log ''debug'' ''Sending track_end event'',
                                          TrackEnd lid p]\<rparr>)"
    using a p1 p2 by (simp add: track_end_def Let_def logged_def same)
  with p2 show "\<exists>p. position now2 s = Inr p
         \<and> track_end now1 now2 s =
             (None, s\<lparr>ended := True,
                      trace := trace s @ [Log ''debug'' ''Sending track_end event'',
                                          TrackEnd lid p]\<rparr>)"
    by blast
next
  assume "ends (snd (track_end now1 now2 s)) \<noteq> ends s"
  then show "playing s" and "\<not> ended s"
    by (auto simp: track_end_def ends_def is_end_def logged_def split: if_splits)
qed

theorem end_effective_once_witness:
  "playing (started_at 1000) \<and> \<not> ended (started_at 1000)
   \<and> track_end 1002 1003 (started_at 1000) =
       (None, (started_at 1000)\<lparr>ended := True,
          trace := [Log ''debug'' ''Sending track_end event'', TrackEnd ''lid-a'' 3000]\<rparr>)
   \<and> track_end 1004 1005 (snd (track_end 1002 1003 (started_at 1000))) =
       (None, logged [Log ''warn'' ''Invalid Track.end() call'']
                (snd (track_end 1002 1003 (started_at 1000))))"
proof -
  have a: "playing (started_at 1000) \<and> \<not> ended (started_at 1000)
     \<and> t_metadata (started_at 1000) = Some some_metadata
     \<and> info (started_at 1000) = Some [(''uri'', ''http://cdn/a''), (''lid'', ''lid-a'')]
     \<and> map_of [(''uri'', ''http://cdn/a''), (''lid'', ''lid-a'')] ''lid'' = Some ''lid-a''"
    by (simp add: started_at_def Track_def)
  have p: "position 1003 (started_at 1000) = Inr 3000"
    by (simp add: position_def started_at_def Track_def some_metadata_def py_int_def)
  have t: "trace (started_at 1000) = []" by (simp add: started_at_def Track_def)
  from end_effective_once [of "started_at 1000" 1002 1003 some_metadata
      "[(''uri'', ''http://cdn/a''), (''lid'', ''lid-a'')]" "''lid-a''"] a p t
  have first: "track_end 1002 1003 (started_at 1000) =
       (None, (started_at 1000)\<lparr>ended := True,
          trace := [Log ''debug'' ''Sending track_end event'', TrackEnd ''lid-a'' 3000]\<rparr>)"
    by auto
  then have e: "ended (snd (track_end 1002 1003 (started_at 1000)))" by simp
  from end_effective_once [of "snd (track_end 1002 1003 (started_at 1000))" 1004 1005] e
  have "track_end 1004 1005 (snd (track_end 1002 1003 (started_at 1000))) =
       (None, logged [Log ''warn'' ''Invalid Track.end() call'']
                (snd (track_end 1002 1003 (started_at 1000))))"
    by blast
  with a first show ?thesis by simp
qed

text \<open>
  The claim as it was stated fails on a session that started playing and then received
  the error callback of a resolution, which stores an absent info: it is playing and has
  not ended, and the call raises and emits nothing.
\<close>

theorem end_without_info_counterexample:
  "playing started_then_failed \<and> \<not> ended started_then_failed
   \<and> fst (track_end 1002 1003 started_then_failed) = Some TypeError
   \<and> \<not> ended (snd (track_end 1002 1003 started_then_failed))
   \<and> ends (snd (track_end 1002 1003 started_then_failed)) = 0"
  by (simp add: fixture_defs model_defs track_end_def position_def py_int_def
      ends_def is_end_def)

section \<open>The position\<close>

text \<open>
  Claim C8, as amended. On a session that holds its metadata, reading the position raises
  nothing. With a duration that is not negative and a clock that does not read earlier
  than the start of playback, the position is between 0 and the duration; it is 0 when
  playback has not started, and otherwise (for a start time other than 0.0) the whole
  milliseconds elapsed since the start, or the duration if that is less.
\<close>

theorem position_clamped:
  assumes md: "t_metadata s = Some md"
  shows "\<exists>p. position now s = Inr p \<and> p \<le> duration md
           \<and> (0 \<le> duration md
                \<and> (case reading_start s of None \<Rightarrow> True | Some t \<Rightarrow> t \<le> now) \<longrightarrow>
              0 \<le> p
              \<and> (reading_start s = None \<longrightarrow> p = 0)
              \<and> (\<forall>t. reading_start s = Some t \<and> t \<noteq> 0 \<longrightarrow>
                    p = min (duration md) \<lfloor>(now - t) * 1000\<rfloor>))"
proof (cases "reading_start s")
  case None
  then show ?thesis using md by (simp add: position_value)
next
  case (Some t)
  have "py_int ((now - t) * 1000) = \<lfloor>(now - t) * 1000\<rfloor>" "0 \<le> \<lfloor>(now - t) * 1000\<rfloor>"
    if "t \<le> now"
    using that by (simp_all add: py_int_def)
  then show ?thesis using Some md by (auto simp: position_value)
qed

theorem position_clamped_witness:
  "t_metadata (started_at 1000) = Some some_metadata \<and> 0 \<le> duration some_metadata
   \<and> position 1003.5 (started_at 1000) = Inr 3500
   \<and> position 5000 (started_at 1000) = Inr 200000"
proof -
  have md: "t_metadata (started_at 1000) = Some some_metadata"
    by (simp add: started_at_def Track_def)
  have d: "0 \<le> duration some_metadata" by (simp add: some_metadata_def)
  have rs: "reading_start (started_at 1000) = Some 1000" by (simp add: started_at_def Track_def)
  have f1: "\<lfloor>(1003.5 - 1000) * 1000 :: real\<rfloor> = 3500" by simp
  have f2: "\<lfloor>(5000 - 1000) * 1000 :: real\<rfloor> = 4000000" by simp
  from position_clamped [OF md, where now = "1003.5"] d rs f1
  have "position 1003.5 (started_at 1000) = Inr 3500"
    by (auto simp: some_metadata_def)
  moreover from position_clamped [OF md, where now = "5000"] d rs f2
  have "position 5000 (started_at 1000) = Inr 200000"
    by (auto simp: some_metadata_def)
  ultimately show ?thesis using md d by simp
qed

text \<open>
  The claim as it was stated fails: on a new session, which has no metadata yet, reading
  the position raises; a clock that reads earlier than the start gives a negative
  position; a start time of 0.0 counts as no start.
\<close>

theorem position_counterexample:
  "reading_start (Track ''spotify:track:a'') = None
   \<and> position 1000 (Track ''spotify:track:a'') = Inl AttributeError
   \<and> position 999 (started_at 1000) = Inr (- 1000)
   \<and> position 1000 (started_at 0) = Inr 0"
  by (simp add: position_def started_at_def Track_def some_metadata_def py_int_def)

section \<open>An answer of the resolver without its fields\<close>

text \<open>
  A success callback whose result carries a \<^verbatim>\<open>lid\<close>, on a session that holds its
  metadata: the info is stored, and playback starts unless it had started.
\<close>

lemma on_track_uri_starts_playback:
  assumes "t_metadata s = Some md" and "map_of resp ''result'' = Some i"
      and "map_of i ''lid'' = Some lid"
  shows "on_track_uri now resp s =
           (None,
            if playing s then
              s\<lparr>info := Some i, info_ev := True,
                trace := trace s @ [Log ''debug'' ''received track info'', Emit ''track_uri'']\<rparr>
            else
              s\<lparr>info := Some i, info_ev := True, limit_timer := True,
                reading_start := Some now, playing := True,
                trace := trace s @ [Log ''debug'' ''received track info'', Emit ''track_uri'',
                  Log ''info'' ''Started'', TimerStart, TrackEvent lid 3 0]\<rparr>)"
  using assms by (simp add: on_track_uri_def on_start_def Let_def)

text \<open>
  Claim C9 says that a success callback whose payload lacks the result, the \<^verbatim>\<open>uri\<close> or
  the \<^verbatim>\<open>lid\<close> raises nothing, does not trigger the start of playback, leaves \<open>playing\<close>
  false and emits no "started" event. \<^verbatim>\<open>on_track_uri\<close> calls \<^verbatim>\<open>on_start\<close> whatever the
  payload: without a result the fallback timer is started and \<^verbatim>\<open>self.info['lid']\<close> raises
  a TypeError; without a \<^verbatim>\<open>lid\<close> it raises a KeyError; without a \<^verbatim>\<open>uri\<close> only, playback
  starts and the "started" event is emitted.
\<close>

theorem on_track_uri_without_result:
  "\<not> playing waiting_for_info
   \<and> on_track_uri 1000 [] waiting_for_info =
       (Some TypeError,
        waiting_for_info\<lparr>info := None, info_ev := True, limit_timer := True,
          trace := trace waiting_for_info
            @ [Log ''debug'' ''received track info'', Emit ''track_uri'',
               Log ''info'' ''Started'', TimerStart]\<rparr>)
   \<and> fst (on_track_uri 1000 [(''result'', [(''uri'', ''http://cdn/a'')])] waiting_for_info)
       = Some KeyError
   \<and> fst (on_track_uri 1000 [(''result'', [(''lid'', ''lid-a'')])] waiting_for_info) = None
   \<and> playing (snd (on_track_uri 1000 [(''result'', [(''lid'', ''lid-a'')])] waiting_for_info))
   \<and> last (trace (snd (on_track_uri 1000 [(''result'', [(''lid'', ''lid-a'')])]
        waiting_for_info))) = TrackEvent ''lid-a'' 3 0"
  by (simp add: fixture_defs model_defs)

end
